theory Spec2Isabelle
  imports Main
begin

section \<open>Requests, responses and the world around a handler\<close>

text \<open>
  The two source files are \<^verbatim>\<open>djangolearning/views.py\<close> (three view functions) and
  \<^verbatim>\<open>subapp/urls.py\<close> (a route table). Everything they call belongs to the web
  framework: \<^verbatim>\<open>HttpResponse\<close>, \<^verbatim>\<open>render\<close>, \<^verbatim>\<open>path\<close>, and the resolver that
  walks a route table. The framework is not part of the repository, so its pieces are
  modelled here as far as the handlers use them, and each such definition says so.

  A request carries a path, a method and headers; no handler reads any of them.
\<close>

record request =
  path_info :: string
  http_method :: string
  headers :: "(string \<times> string) list"

text \<open>A response is a status code and a body.\<close>

record response =
  status_code :: nat
  content :: string

text \<open>A template context is a dictionary; \<open>None\<close> is Python's default \<^verbatim>\<open>context=None\<close>.\<close>

type_synonym template_context = "(string \<times> string) list"

text \<open>
  Every exception that the modelled code can meet is a value. \<open>Resolver404\<close> is what the
  framework turns into its not-found page.
\<close>

datatype error =
    TemplateDoesNotExist string
  | TemplateSyntaxError string
  | AttributeError string
  | ImportError string
  | NoReverseMatch string
  | Resolver404 string

text \<open>
  The state outside a handler is the template service, keyed by template name, and
  whatever else a rendering can reach (sessions, caches, the clock, the database),
  kept as a store of named values.

  The template engine is not specified. A template is therefore any function that,
  from the request, the context and the store, either raises or yields the rendered
  text, and leaves a store behind: rendering may fail, may depend on the store and may
  change it.
\<close>

type_synonym store = "string \<rightharpoonup> string"

type_synonym template =
  "request \<Rightarrow> template_context option \<Rightarrow> store \<Rightarrow> (error + string) \<times> store"

record world =
  templates :: "string \<rightharpoonup> template"
  store :: store

text \<open>A call issued to the template-rendering collaborator, with its arguments.\<close>

datatype call = Render request string "template_context option"

text \<open>
  What one invocation of a handler leaves behind: the response or the exception, the
  calls it issued to the collaborator (in order), and the world afterwards.
\<close>

record outcome =
  result :: "error + response"
  calls :: "call list"
  final :: world

type_synonym handler = "request \<Rightarrow> world \<Rightarrow> outcome"

text \<open>Returning a value and raising an exception touch nothing and call nothing.\<close>

definition return_response :: "response \<Rightarrow> world \<Rightarrow> outcome" where
  "return_response r w = \<lparr>result = Inr r, calls = [], final = w\<rparr>"

definition raise :: "error \<Rightarrow> world \<Rightarrow> outcome" where
  "raise e w = \<lparr>result = Inl e, calls = [], final = w\<rparr>"

text \<open>
  Modelled from the spec: the framework's \<^verbatim>\<open>HttpResponse(content, status=None)\<close>.
  The status code is 200 unless a status is passed.
\<close>

definition HttpResponse :: "string \<Rightarrow> nat option \<Rightarrow> response" where
  "HttpResponse body status =
     \<lparr>status_code = (case status of None \<Rightarrow> 200 | Some s \<Rightarrow> s), content = body\<rparr>"

text \<open>
  Modelled from the spec: the framework's \<^verbatim>\<open>render(request, template_name, context=None)\<close>,
  the template-rendering service keyed by template name. It looks the template up and
  raises \<open>TemplateDoesNotExist\<close> when the name resolves to nothing. Otherwise it renders
  the template: an exception raised while rendering passes through as it is, rendered
  text is wrapped in a response with the default status, and the store is the one that
  rendering left behind.
\<close>

definition render :: "request \<Rightarrow> string \<Rightarrow> template_context option \<Rightarrow> world \<Rightarrow> outcome" where
  "render request template_name ctx w =
     (case templates w template_name of
        None \<Rightarrow>
          \<lparr>result = Inl (TemplateDoesNotExist template_name),
           calls = [Render request template_name ctx],
           final = w\<rparr>
      | Some t \<Rightarrow>
          (case t request ctx (store w) of
             (rendered, s) \<Rightarrow>
               \<lparr>result =
                  (case rendered of
                     Inl e \<Rightarrow> Inl e
                   | Inr body \<Rightarrow> Inr (HttpResponse body None)),
                calls = [Render request template_name ctx],
                final = w\<lparr>store := s\<rparr>\<rparr>))"

section \<open>The views module\<close>

text \<open>
  \<^verbatim>\<open>
  def home(request):
      # return HttpResponse("Hello from django views, and hompepage")
      return render(request,'website/index.html')

  def about(request):
      return HttpResponse("Hello from django views, and about page")

  def contact(request):
      return HttpResponse("Hello from django views, and contact page")
  \<close>
\<close>

definition home :: handler where
  "home request = render request ''website/index.html'' None"

definition about :: handler where
  "about request = return_response (HttpResponse ''Hello from django views, and about page'' None)"

definition contact :: handler where
  "contact request =
     return_response (HttpResponse ''Hello from django views, and contact page'' None)"

text \<open>
  A module is the functions it defines, by name. \<open>views_py\<close> lists the \<^verbatim>\<open>def\<close>
  statements of \<^verbatim>\<open>djangolearning/views.py\<close> in the order of the file.
\<close>

type_synonym py_module = "string \<rightharpoonup> handler"

definition views_py :: "(string \<times> handler) list" where
  "views_py = [(''home'', home), (''about'', about), (''contact'', contact)]"

text \<open>Attribute access \<^verbatim>\<open>m.a\<close> raises when the module has no such name.\<close>

definition getattr :: "py_module \<Rightarrow> string \<Rightarrow> error + handler" where
  "getattr m a = (case m a of None \<Rightarrow> Inl (AttributeError a) | Some h \<Rightarrow> Inr h)"

section \<open>The route table of the subapp\<close>

text \<open>A route is a path pattern, the handler it leads to, and a name.\<close>

record urlpattern =
  route :: string
  view :: handler
  name :: string

definition path :: "string \<Rightarrow> handler \<Rightarrow> string \<Rightarrow> urlpattern" where
  "path r v n = \<lparr>route = r, view = v, name = n\<rparr>"

text \<open>
  \<^verbatim>\<open>
  from . import views

  urlpatterns = [
      path('', views.subapp, name='subapphomepage'),
      path('login', views.login, name='login'),
  ]
  \<close>
  \<^verbatim>\<open>views\<close> is the module \<^verbatim>\<open>subapp/views.py\<close>, which is not among the source
  files, so the table takes it as a parameter. The list display evaluates its
  elements from left to right: \<^verbatim>\<open>views.subapp\<close> is read before \<^verbatim>\<open>views.login\<close>.
\<close>

definition urlpatterns :: "py_module \<Rightarrow> error + urlpattern list" where
  "urlpatterns views =
     (case getattr views ''subapp'' of
        Inl e \<Rightarrow> Inl e
      | Inr subapp \<Rightarrow>
          (case getattr views ''login'' of
             Inl e \<Rightarrow> Inl e
           | Inr login \<Rightarrow>
               Inr [path '''' subapp ''subapphomepage'', path ''login'' login ''login'']))"

text \<open>
  The modules that the source files provide, by dotted name. \<^verbatim>\<open>subapp/urls.py\<close>
  defines no function.
\<close>

definition source_tree :: "string \<rightharpoonup> py_module" where
  "source_tree = [''djangolearning.views'' \<mapsto> map_of views_py, ''subapp.urls'' \<mapsto> Map.empty]"

text \<open>\<^verbatim>\<open>from . import views\<close> inside the package \<^verbatim>\<open>subapp\<close>.\<close>

definition import_module :: "(string \<rightharpoonup> py_module) \<Rightarrow> string \<Rightarrow> error + py_module" where
  "import_module tree n = (case tree n of None \<Rightarrow> Inl (ImportError n) | Some m \<Rightarrow> Inr m)"

definition subapp_urls :: "(string \<rightharpoonup> py_module) \<Rightarrow> error + urlpattern list" where
  "subapp_urls tree =
     (case import_module tree ''subapp.views'' of
        Inl e \<Rightarrow> Inl e
      | Inr views \<Rightarrow> urlpatterns views)"

section \<open>The framework's resolver\<close>

text \<open>
  Modelled from the spec: a route written with \<^verbatim>\<open>path\<close> and without converters
  matches the remaining path when the two are equal.
\<close>

definition matches :: "urlpattern \<Rightarrow> string \<Rightarrow> bool" where
  "matches e p \<longleftrightarrow> route e = p"

text \<open>
  Modelled from the spec: given an incoming path, the resolver walks the table in
  order and stops at the first route whose pattern matches; when none matches there is
  no route.
\<close>

fun resolve :: "urlpattern list \<Rightarrow> string \<Rightarrow> urlpattern option" where
  "resolve [] p = None"
| "resolve (e # es) p = (if matches e p then Some e else resolve es p)"

definition lookup_handler :: "urlpattern list \<Rightarrow> string \<Rightarrow> handler option" where
  "lookup_handler ps p = map_option view (resolve ps p)"

text \<open>
  Modelled from the spec: reverse routing finds the route that carries a name and
  gives its path, relative to the table; an unknown name raises \<open>NoReverseMatch\<close>.
\<close>

definition reverse :: "urlpattern list \<Rightarrow> string \<Rightarrow> error + string" where
  "reverse ps n =
     (case find (\<lambda>e. name e = n) ps of
        None \<Rightarrow> Inl (NoReverseMatch n)
      | Some e \<Rightarrow> Inr (route e))"

text \<open>
  Modelled from the spec: the server builds the subapp's route table from the modules
  it can import, matches the path against it and invokes the handler found.
\<close>

definition dispatch :: "(string \<rightharpoonup> py_module) \<Rightarrow> string \<Rightarrow> handler" where
  "dispatch tree p request w =
     (case subapp_urls tree of
        Inl e \<Rightarrow> raise e w
      | Inr ps \<Rightarrow>
          (case resolve ps p of
             None \<Rightarrow> raise (Resolver404 p) w
           | Some e \<Rightarrow> view e request w))"

section \<open>Concrete inputs\<close>

text \<open>
  Two requests; a world with no template at all; a world that holds a home page
  template of fixed text; a world whose home page template exists but raises while it
  is rendered; a world whose home page template greets a returning visitor
  differently and records the visit in the store; and a views module that supplies both
  names the route table reads.
\<close>

definition get_about :: request where
  "get_about = \<lparr>path_info = ''/about'', http_method = ''GET'', headers = []\<rparr>"

definition get_signup :: request where
  "get_signup = \<lparr>path_info = ''/subapp/signup'', http_method = ''GET'', headers = []\<rparr>"

definition no_templates :: world where
  "no_templates = \<lparr>templates = Map.empty, store = Map.empty\<rparr>"

definition index_template :: template where
  "index_template request ctx s = (Inr ''<h1>Home</h1>'', s)"

definition with_index :: world where
  "with_index = \<lparr>templates = [''website/index.html'' \<mapsto> index_template], store = Map.empty\<rparr>"

definition broken_template :: template where
  "broken_template request ctx s = (Inl (TemplateSyntaxError ''website/index.html''), s)"

definition broken_index :: world where
  "broken_index =
     \<lparr>templates = [''website/index.html'' \<mapsto> broken_template], store = Map.empty\<rparr>"

definition counting_template :: template where
  "counting_template request ctx s =
     (Inr (case s ''visited'' of None \<Rightarrow> ''first visit'' | Some v \<Rightarrow> ''welcome back''),
      s(''visited'' \<mapsto> ''yes''))"

definition counting :: world where
  "counting =
     \<lparr>templates = [''website/index.html'' \<mapsto> counting_template], store = Map.empty\<rparr>"

definition complete_views :: py_module where
  "complete_views = [''subapp'' \<mapsto> home, ''login'' \<mapsto> contact]"

section \<open>Facts about the route table and the resolver\<close>

lemma urlpatterns_Inr_iff:
  "urlpatterns views = Inr ps \<longleftrightarrow>
     (\<exists>s l. views ''subapp'' = Some s \<and> views ''login'' = Some l \<and>
        ps = [\<lparr>route = '''', view = s, name = ''subapphomepage''\<rparr>,
              \<lparr>route = ''login'', view = l, name = ''login''\<rparr>])"
  by (auto simp add: urlpatterns_def getattr_def path_def split: option.splits)

lemma complete_views_table:
  "urlpatterns complete_views =
     Inr [\<lparr>route = '''', view = home, name = ''subapphomepage''\<rparr>,
          \<lparr>route = ''login'', view = contact, name = ''login''\<rparr>]"
  by (simp add: urlpatterns_def getattr_def path_def complete_views_def)

lemma resolve_None_iff: "resolve ps p = None \<longleftrightarrow> (\<forall>e\<in>set ps. \<not> matches e p)"
  by (induction ps) auto

text \<open>
  The resolver's answer is the entry at the least index that matches. The proof walks
  the table: at a matching head the index is 0, otherwise the index in the tail is
  shifted by one.
\<close>

lemma resolve_Some_first:
  "resolve ps p = Some e \<longleftrightarrow>
     (\<exists>i<length ps. ps ! i = e \<and> matches e p \<and> (\<forall>j<i. \<not> matches (ps ! j) p))"
proof (induction ps)
  case Nil
  show ?case by simp
next
  case (Cons a ps)
  let ?first = "\<lambda>qs. \<exists>i<length qs. qs ! i = e \<and> matches e p \<and> (\<forall>j<i. \<not> matches (qs ! j) p)"
  show ?case
  proof (cases "matches a p")
    case True
    have "?first (a # ps) \<longleftrightarrow> a = e"
    proof
      assume "?first (a # ps)"
      then obtain i where i: "(a # ps) ! i = e" "\<forall>j<i. \<not> matches ((a # ps) ! j) p"
        by blast
      have "i = 0"
      proof (rule ccontr)
        assume "i \<noteq> 0"
        then have "0 < i" by simp
        with i(2) have "\<not> matches ((a # ps) ! 0) p" by blast
        with True show False by simp
      qed
      with i(1) show "a = e" by simp
    next
      assume "a = e"
      with True show "?first (a # ps)" by (intro exI [of _ 0]) simp
    qed
    with True show ?thesis by simp
  next
    case False
    have "?first (a # ps) \<longleftrightarrow> ?first ps"
    proof
      assume "?first (a # ps)"
      then obtain i where i: "i < length (a # ps)" "(a # ps) ! i = e" "matches e p"
        "\<forall>j<i. \<not> matches ((a # ps) ! j) p" by blast
      from i(2,3) False obtain k where k: "i = Suc k" by (cases i) auto
      have "\<forall>j<k. \<not> matches (ps ! j) p"
      proof (intro allI impI)
        fix j assume "j < k"
        then have "Suc j < i" using k by simp
        with i(4) have "\<not> matches ((a # ps) ! Suc j) p" by blast
        then show "\<not> matches (ps ! j) p" by simp
      qed
      with i k show "?first ps" by (intro exI [of _ k]) simp
    next
      assume "?first ps"
      then obtain k where k: "k < length ps" "ps ! k = e" "matches e p"
        "\<forall>j<k. \<not> matches (ps ! j) p" by blast
      have "\<forall>j<Suc k. \<not> matches ((a # ps) ! j) p"
      proof (intro allI impI)
        fix j assume "j < Suc k"
        then show "\<not> matches ((a # ps) ! j) p"
          using False k(4) by (cases j) auto
      qed
      with k show "?first (a # ps)" by (intro exI [of _ "Suc k"]) simp
    qed
    with False Cons.IH show ?thesis by simp
  qed
qed

lemma dispatch_resolved:
  assumes "import_module tree ''subapp.views'' = Inr views" and "urlpatterns views = Inr ps"
  shows "dispatch tree p request w =
           (case resolve ps p of
              None \<Rightarrow> raise (Resolver404 p) w
            | Some e \<Rightarrow> view e request w)"
  using assms by (simp add: dispatch_def subapp_urls_def)

section \<open>Facts about the modules that the source provides\<close>

lemma source_module_lacks_subapp_login:
  "source_tree n = Some m \<Longrightarrow> m ''subapp'' = None \<and> m ''login'' = None"
  by (auto simp add: source_tree_def views_py_def split: if_splits)

lemma subapp_urls_source_tree: "subapp_urls source_tree = Inl (ImportError ''subapp.views'')"
  by (simp add: subapp_urls_def import_module_def source_tree_def)

section \<open>The fixed-text handlers\<close>

text \<open>
  C1. For every request, the about handler returns a response whose body is exactly
  "Hello from django views, and about page" and whose status code is the default
  success status, 200.
\<close>

theorem about_response:
  "result (about request w) =
     Inr \<lparr>status_code = 200, content = ''Hello from django views, and about page''\<rparr>"
  by (simp add: about_def return_response_def HttpResponse_def)

text \<open>
  C2. For every request, the contact handler returns a response whose body is exactly
  "Hello from django views, and contact page" and whose status code is the default
  success status, 200.
\<close>

theorem contact_response:
  "result (contact request w) =
     Inr \<lparr>status_code = 200, content = ''Hello from django views, and contact page''\<rparr>"
  by (simp add: contact_def return_response_def HttpResponse_def)

section \<open>The home handler\<close>

text \<open>
  C3. For every request, the home handler issues exactly one render call to the
  template-rendering collaborator, with the template name "website/index.html" and no
  context data, and its response is the result of that call.
\<close>

theorem home_renders_index_once:
  "calls (home request w) = [Render request ''website/index.html'' None]
   \<and> result (home request w) = result (render request ''website/index.html'' None w)"
  by (simp add: home_def render_def split: option.splits prod.splits)

text \<open>
  C7, as the code has it. For every request, if resolution of the template
  "website/index.html" fails, the home handler raises the template-not-found error of
  the collaborator without catching it. When the template resolves, the handler
  returns the rendered response, or raises, unchanged, whatever error the collaborator
  raised while rendering. The handler has no error handling of its own: in every case
  its outcome is the outcome of the render call.
\<close>

theorem home_propagates_render_errors:
  "(templates w ''website/index.html'' = None \<longrightarrow>
      result (home request w) = Inl (TemplateDoesNotExist ''website/index.html''))
   \<and> (\<forall>t e s. templates w ''website/index.html'' = Some t \<longrightarrow>
        t request None (store w) = (Inl e, s) \<longrightarrow>
        result (home request w) = Inl e)
   \<and> (\<forall>t body s. templates w ''website/index.html'' = Some t \<longrightarrow>
        t request None (store w) = (Inr body, s) \<longrightarrow>
        result (home request w) = Inr (HttpResponse body None))
   \<and> home request w = render request ''website/index.html'' None w"
  by (simp add: home_def render_def)

theorem home_propagates_render_errors_witness:
  "templates no_templates ''website/index.html'' = None
   \<and> result (home get_about no_templates) = Inl (TemplateDoesNotExist ''website/index.html'')
   \<and> templates broken_index ''website/index.html'' = Some broken_template
   \<and> broken_template get_about None (store broken_index)
       = (Inl (TemplateSyntaxError ''website/index.html''), Map.empty)
   \<and> result (home get_about broken_index) = Inl (TemplateSyntaxError ''website/index.html'')
   \<and> templates with_index ''website/index.html'' = Some index_template
   \<and> index_template get_about None (store with_index) = (Inr ''<h1>Home</h1>'', Map.empty)
   \<and> result (home get_about with_index) = Inr \<lparr>status_code = 200, content = ''<h1>Home</h1>''\<rparr>"
proof -
  have missing: "templates no_templates ''website/index.html'' = None"
    by (simp add: no_templates_def)
  have broken: "templates broken_index ''website/index.html'' = Some broken_template"
    by (simp add: broken_index_def)
  have raises: "broken_template get_about None (store broken_index)
                  = (Inl (TemplateSyntaxError ''website/index.html''), Map.empty)"
    by (simp add: broken_template_def broken_index_def)
  have present: "templates with_index ''website/index.html'' = Some index_template"
    by (simp add: with_index_def)
  have renders: "index_template get_about None (store with_index)
                   = (Inr ''<h1>Home</h1>'', Map.empty)"
    by (simp add: index_template_def with_index_def)
  from missing home_propagates_render_errors [of no_templates get_about]
  have r1: "result (home get_about no_templates)
              = Inl (TemplateDoesNotExist ''website/index.html'')"
    by blast
  from broken raises home_propagates_render_errors [of broken_index get_about]
  have r2: "result (home get_about broken_index)
              = Inl (TemplateSyntaxError ''website/index.html'')"
    by blast
  from present renders home_propagates_render_errors [of with_index get_about]
  have "result (home get_about with_index) = Inr (HttpResponse ''<h1>Home</h1>'' None)"
    by blast
  then have r3: "result (home get_about with_index)
                   = Inr \<lparr>status_code = 200, content = ''<h1>Home</h1>''\<rparr>"
    by (simp add: HttpResponse_def)
  from missing r1 broken raises r2 present renders r3 show ?thesis by blast
qed

text \<open>
  The template resolves and the handler raises all the same: the error of the
  rendering reaches the caller.
\<close>

theorem home_raises_on_resolved_template:
  "templates broken_index ''website/index.html'' = Some broken_template
   \<and> result (home get_about broken_index) = Inl (TemplateSyntaxError ''website/index.html'')"
  by (simp add: home_def render_def broken_index_def broken_template_def)

section \<open>Determinism and side effects\<close>

text \<open>
  C9, as the code has it. The handlers about and contact are deterministic and free of
  side effects: an invocation calls no collaborator, leaves the world as it found it,
  and returns the same response in every world. The home handler adds nothing of its
  own to its one render call: its outcome is that call's outcome, it never changes
  the template table, and the only change it makes to the world is the one that
  rendering the template makes to the store. It is deterministic and free of side
  effects as far as the collaborator is, and no further.
\<close>

theorem fixed_text_handlers_pure_home_as_render:
  "final (about request w) = w \<and> calls (about request w) = []
   \<and> result (about request w) = result (about request w')
   \<and> final (contact request w) = w \<and> calls (contact request w) = []
   \<and> result (contact request w) = result (contact request w')
   \<and> home request w = render request ''website/index.html'' None w
   \<and> (templates w ''website/index.html'' = None \<longrightarrow> final (home request w) = w)
   \<and> (\<forall>t. templates w ''website/index.html'' = Some t \<longrightarrow>
        final (home request w) = w\<lparr>store := snd (t request None (store w))\<rparr>)"
  by (simp add: about_def contact_def home_def render_def return_response_def
      split: prod.splits)

theorem fixed_text_handlers_pure_home_as_render_witness:
  "templates no_templates ''website/index.html'' = None
   \<and> final (home get_about no_templates) = no_templates
   \<and> templates with_index ''website/index.html'' = Some index_template
   \<and> final (home get_about with_index) = with_index
   \<and> result (about get_about no_templates) = result (about get_about counting)"
proof -
  have missing: "templates no_templates ''website/index.html'' = None"
    by (simp add: no_templates_def)
  have present: "templates with_index ''website/index.html'' = Some index_template"
    by (simp add: with_index_def)
  note at_none = fixed_text_handlers_pure_home_as_render [of get_about no_templates counting]
  note at_index = fixed_text_handlers_pure_home_as_render [of get_about with_index counting]
  from missing at_none have f1: "final (home get_about no_templates) = no_templates"
    by blast
  from present at_index
  have "final (home get_about with_index)
          = with_index\<lparr>store := snd (index_template get_about None (store with_index))\<rparr>"
    by blast
  then have f2: "final (home get_about with_index) = with_index"
    by (simp add: index_template_def)
  from at_none have "result (about get_about no_templates) = result (about get_about counting)"
    by blast
  with missing f1 present f2 show ?thesis by blast
qed

text \<open>
  Two invocations of the home handler on the same request, one after the other: the
  first records the visit in the store, so the world is not what it was, and the second
  returns a different body.
\<close>

theorem home_varies_on_same_request:
  "result (home get_about counting)
     = Inr \<lparr>status_code = 200, content = ''first visit''\<rparr>
   \<and> store counting ''visited'' = None
   \<and> store (final (home get_about counting)) ''visited'' = Some ''yes''
   \<and> result (home get_about (final (home get_about counting)))
       = Inr \<lparr>status_code = 200, content = ''welcome back''\<rparr>"
  by (simp add: home_def render_def counting_def counting_template_def HttpResponse_def)

section \<open>The subapp's routes\<close>

text \<open>
  C4. The subapp route table contains exactly two entries, in this order: the empty path
  mapped to the subapp's home handler (\<^verbatim>\<open>views.subapp\<close>) under the route name
  "subapphomepage", and the path "login" mapped to the login handler
  (\<^verbatim>\<open>views.login\<close>) under the route name "login".
\<close>

theorem subapp_route_table:
  assumes "views ''subapp'' = Some s" and "views ''login'' = Some l"
  shows "urlpatterns views =
           Inr [\<lparr>route = '''', view = s, name = ''subapphomepage''\<rparr>,
                \<lparr>route = ''login'', view = l, name = ''login''\<rparr>]"
  using assms by (simp add: urlpatterns_def getattr_def path_def)

theorem subapp_route_table_witness:
  "complete_views ''subapp'' = Some home \<and> complete_views ''login'' = Some contact
   \<and> urlpatterns complete_views =
       Inr [\<lparr>route = '''', view = home, name = ''subapphomepage''\<rparr>,
            \<lparr>route = ''login'', view = contact, name = ''login''\<rparr>]"
proof -
  have s: "complete_views ''subapp'' = Some home" by (simp add: complete_views_def)
  have l: "complete_views ''login'' = Some contact" by (simp add: complete_views_def)
  from s l subapp_route_table [OF s l] show ?thesis by simp
qed

text \<open>
  C6. For every incoming path, route lookup in the subapp route table returns the
  handler of the first entry, in table order, whose pattern matches the path, and
  returns no handler when no entry's pattern matches; the framework then answers with
  its not-found error.
\<close>

theorem subapp_lookup_first_match:
  assumes "import_module tree ''subapp.views'' = Inr views" and "urlpatterns views = Inr ps"
  shows "(\<forall>h. lookup_handler ps p = Some h \<longleftrightarrow>
            (\<exists>i<length ps. view (ps ! i) = h \<and> matches (ps ! i) p
               \<and> (\<forall>j<i. \<not> matches (ps ! j) p)))
         \<and> (lookup_handler ps p = None \<longleftrightarrow> (\<forall>e\<in>set ps. \<not> matches e p))
         \<and> (lookup_handler ps p = None \<longrightarrow>
              result (dispatch tree p request w) = Inl (Resolver404 p))
         \<and> lookup_handler ps p =
              (if p = '''' then views ''subapp''
               else if p = ''login'' then views ''login'' else None)"
proof (intro conjI allI)
  fix h
  have "lookup_handler ps p = Some h \<longleftrightarrow> (\<exists>e. resolve ps p = Some e \<and> view e = h)"
    by (auto simp add: lookup_handler_def)
  also have "\<dots> \<longleftrightarrow> (\<exists>i<length ps. view (ps ! i) = h \<and> matches (ps ! i) p
                         \<and> (\<forall>j<i. \<not> matches (ps ! j) p))"
    unfolding resolve_Some_first by blast
  finally show "lookup_handler ps p = Some h \<longleftrightarrow>
                  (\<exists>i<length ps. view (ps ! i) = h \<and> matches (ps ! i) p
                     \<and> (\<forall>j<i. \<not> matches (ps ! j) p))" .
next
  show "lookup_handler ps p = None \<longleftrightarrow> (\<forall>e\<in>set ps. \<not> matches e p)"
    by (simp add: lookup_handler_def resolve_None_iff)
next
  show "lookup_handler ps p = None \<longrightarrow>
          result (dispatch tree p request w) = Inl (Resolver404 p)"
    by (simp add: dispatch_resolved [OF assms] lookup_handler_def raise_def)
next
  from assms(2) obtain s l where
    "views ''subapp'' = Some s" "views ''login'' = Some l"
    "ps = [\<lparr>route = '''', view = s, name = ''subapphomepage''\<rparr>,
           \<lparr>route = ''login'', view = l, name = ''login''\<rparr>]"
    unfolding urlpatterns_Inr_iff by blast
  then show "lookup_handler ps p =
               (if p = '''' then views ''subapp''
                else if p = ''login'' then views ''login'' else None)"
    by (auto simp add: lookup_handler_def matches_def)
qed

theorem subapp_lookup_first_match_witness:
  "import_module (source_tree(''subapp.views'' \<mapsto> complete_views)) ''subapp.views''
     = Inr complete_views
   \<and> urlpatterns complete_views =
       Inr [\<lparr>route = '''', view = home, name = ''subapphomepage''\<rparr>,
            \<lparr>route = ''login'', view = contact, name = ''login''\<rparr>]
   \<and> lookup_handler [\<lparr>route = '''', view = home, name = ''subapphomepage''\<rparr>,
                      \<lparr>route = ''login'', view = contact, name = ''login''\<rparr>] ''login''
       = Some contact
   \<and> lookup_handler [\<lparr>route = '''', view = home, name = ''subapphomepage''\<rparr>,
                      \<lparr>route = ''login'', view = contact, name = ''login''\<rparr>] ''signup''
       = None
   \<and> result (dispatch (source_tree(''subapp.views'' \<mapsto> complete_views)) ''signup''
               get_signup no_templates)
       = Inl (Resolver404 ''signup'')"
proof -
  let ?tree = "source_tree(''subapp.views'' \<mapsto> complete_views)"
  let ?ps = "[\<lparr>route = '''', view = home, name = ''subapphomepage''\<rparr>,
              \<lparr>route = ''login'', view = contact, name = ''login''\<rparr>]"
  have t: "import_module ?tree ''subapp.views'' = Inr complete_views"
    by (simp add: import_module_def)
  note at_login = subapp_lookup_first_match [OF t complete_views_table, of "''login''"]
  note at_signup = subapp_lookup_first_match
    [OF t complete_views_table, of "''signup''" get_signup no_templates]
  from at_login have found: "lookup_handler ?ps ''login'' = Some contact"
    by (simp add: complete_views_def)
  from at_signup have none: "lookup_handler ?ps ''signup'' = None"
    by (simp add: complete_views_def)
  with at_signup have "result (dispatch ?tree ''signup'' get_signup no_templates)
                         = Inl (Resolver404 ''signup'')"
    by blast
  with t complete_views_table found none show ?thesis by simp
qed

text \<open>
  C8. Reverse routing over the subapp route table is a round trip with forward routing:
  the route name "subapphomepage" yields the empty path and the route name "login"
  yields the path "login"; for each entry of the table, reversing its name gives its
  path, and resolving that path gives the entry back.
\<close>

theorem reverse_round_trip:
  assumes "urlpatterns views = Inr ps"
  shows "reverse ps ''subapphomepage'' = Inr ''''
         \<and> reverse ps ''login'' = Inr ''login''
         \<and> (\<forall>e\<in>set ps. reverse ps (name e) = Inr (route e) \<and> resolve ps (route e) = Some e)"
proof -
  from assms obtain s l where
    ps: "ps = [\<lparr>route = '''', view = s, name = ''subapphomepage''\<rparr>,
               \<lparr>route = ''login'', view = l, name = ''login''\<rparr>]"
    unfolding urlpatterns_Inr_iff by blast
  show ?thesis
    unfolding ps by (simp add: reverse_def matches_def)
qed

theorem reverse_round_trip_witness:
  "urlpatterns complete_views =
       Inr [\<lparr>route = '''', view = home, name = ''subapphomepage''\<rparr>,
            \<lparr>route = ''login'', view = contact, name = ''login''\<rparr>]
   \<and> reverse [\<lparr>route = '''', view = home, name = ''subapphomepage''\<rparr>,
               \<lparr>route = ''login'', view = contact, name = ''login''\<rparr>] ''login''
       = Inr ''login''
   \<and> resolve [\<lparr>route = '''', view = home, name = ''subapphomepage''\<rparr>,
               \<lparr>route = ''login'', view = contact, name = ''login''\<rparr>] ''login''
       = Some \<lparr>route = ''login'', view = contact, name = ''login''\<rparr>"
proof -
  let ?login = "\<lparr>route = ''login'', view = contact, name = ''login''\<rparr>"
  let ?ps = "[\<lparr>route = '''', view = home, name = ''subapphomepage''\<rparr>, ?login]"
  have "?login \<in> set ?ps" by simp
  with reverse_round_trip [OF complete_views_table]
  have "reverse ?ps (name ?login) = Inr (route ?login) \<and> resolve ?ps (route ?login) = Some ?login"
    by blast
  with complete_views_table show ?thesis by simp
qed

text \<open>
  C10. Neither handler that the subapp route table refers to exists in the source: the
  table reads \<^verbatim>\<open>views.subapp\<close> and \<^verbatim>\<open>views.login\<close>, the module it imports is
  not among the source files, and no module of the source defines a function named
  subapp or login. So the table cannot be built over any module of the source, and
  dispatch through the subapp's routes ends in an exception for every path, never in a
  response.
\<close>

theorem subapp_handlers_undefined:
  "source_tree ''subapp.views'' = None
   \<and> (\<forall>n m. source_tree n = Some m \<longrightarrow> m ''subapp'' = None \<and> m ''login'' = None)
   \<and> (\<forall>n m. source_tree n = Some m \<longrightarrow> urlpatterns m = Inl (AttributeError ''subapp''))
   \<and> subapp_urls source_tree = Inl (ImportError ''subapp.views'')
   \<and> (\<forall>p request w.
        result (dispatch source_tree p request w) = Inl (ImportError ''subapp.views''))"
proof (intro conjI allI impI)
  show "source_tree ''subapp.views'' = None" by (simp add: source_tree_def)
next
  fix n m assume "source_tree n = Some m"
  then show "m ''subapp'' = None" and "m ''login'' = None"
    by (simp_all add: source_module_lacks_subapp_login)
next
  fix n m assume "source_tree n = Some m"
  then have "m ''subapp'' = None" by (simp add: source_module_lacks_subapp_login)
  then show "urlpatterns m = Inl (AttributeError ''subapp'')"
    by (simp add: urlpatterns_def getattr_def)
next
  show "subapp_urls source_tree = Inl (ImportError ''subapp.views'')"
    by (rule subapp_urls_source_tree)
next
  fix p request w
  show "result (dispatch source_tree p request w) = Inl (ImportError ''subapp.views'')"
    by (simp add: dispatch_def subapp_urls_source_tree raise_def)
qed

theorem subapp_handlers_undefined_witness:
  "source_tree ''djangolearning.views'' = Some (map_of views_py)
   \<and> map_of views_py ''subapp'' = None
   \<and> map_of views_py ''login'' = None
   \<and> urlpatterns (map_of views_py) = Inl (AttributeError ''subapp'')
   \<and> result (dispatch source_tree '''' get_about no_templates) = Inl (ImportError ''subapp.views'')
   \<and> result (dispatch source_tree ''login'' get_about no_templates)
       = Inl (ImportError ''subapp.views'')"
proof -
  have m: "source_tree ''djangolearning.views'' = Some (map_of views_py)"
    by (simp add: source_tree_def)
  from m subapp_handlers_undefined show ?thesis by blast
qed

end
